theory Spec2Isabelle
  imports Complex_Main "HOL-Library.Multiset"
begin

section \<open>Strings as the analyzer uses them\<close>

text \<open>
  The analyzer of \<^verbatim>\<open>src/core/nlp_analyzer.py\<close> works on Python strings with
  \<^verbatim>\<open>lower()\<close>, \<^verbatim>\<open>split()\<close>, \<^verbatim>\<open>startswith\<close>, the substring test \<^verbatim>\<open>in\<close> and four
  regular expressions. A question is modelled as a \<^typ>\<open>string\<close> of ASCII characters; the
  character classes below are the ASCII part of Python's classes.
\<close>

definition is_space :: "char \<Rightarrow> bool" where
  \<comment> \<open>\<^verbatim>\<open>str.isspace\<close> and the regex class \<^verbatim>\<open>\s\<close>: TAB, LF, VT, FF, CR, FS, GS, RS, US, space\<close>
  "is_space c = (let n = (of_char c :: nat) in (9 \<le> n \<and> n \<le> 13) \<or> (28 \<le> n \<and> n \<le> 32))"

definition is_word :: "char \<Rightarrow> bool" where
  \<comment> \<open>the regex class \<^verbatim>\<open>\w\<close>: letters, digits and the underscore\<close>
  "is_word c = (let n = (of_char c :: nat) in
     (48 \<le> n \<and> n \<le> 57) \<or> (65 \<le> n \<and> n \<le> 90) \<or> n = 95 \<or> (97 \<le> n \<and> n \<le> 122))"

definition lower_char :: "char \<Rightarrow> char" where
  "lower_char c = (let n = (of_char c :: nat) in
     if 65 \<le> n \<and> n \<le> 90 then char_of (n + 32) else c)"

definition lower :: "string \<Rightarrow> string" where
  "lower s = map lower_char s"

fun startswith :: "string \<Rightarrow> string \<Rightarrow> bool" where
  \<comment> \<open>\<^verbatim>\<open>s.startswith(k)\<close> is \<open>startswith k s\<close>\<close>
  "startswith [] s = True"
| "startswith (k # ks) [] = False"
| "startswith (k # ks) (c # cs) = (k = c \<and> startswith ks cs)"

fun contains :: "string \<Rightarrow> string \<Rightarrow> bool" where
  \<comment> \<open>\<^verbatim>\<open>k in s\<close> is \<open>contains k s\<close>\<close>
  "contains k [] = (k = [])"
| "contains k (c # cs) = (startswith k (c # cs) \<or> contains k cs)"

fun split_from :: "string \<Rightarrow> string \<Rightarrow> string list" where
  \<comment> \<open>the scan of \<^verbatim>\<open>str.split()\<close>; the first argument is the current word, reversed\<close>
  "split_from cur [] = (if cur = [] then [] else [rev cur])"
| "split_from cur (c # cs) =
     (if is_space c then (if cur = [] then split_from [] cs else rev cur # split_from [] cs)
      else split_from (c # cur) cs)"

definition split :: "string \<Rightarrow> string list" where
  "split s = split_from [] s"

subsection \<open>Regular-expression search\<close>

text \<open>
  \<^verbatim>\<open>re.search(p, s)\<close> tries the pattern at every position of \<open>s\<close>, the end included. A
  matcher sees the character before the position (for \<^verbatim>\<open>\b\<close>) and the rest of the string.
\<close>

fun re_search :: "(char option \<Rightarrow> string \<Rightarrow> bool) \<Rightarrow> char option \<Rightarrow> string \<Rightarrow> bool" where
  "re_search m prev [] = m prev []"
| "re_search m prev (c # cs) = (m prev (c # cs) \<or> re_search m (Some c) cs)"

definition word_at :: "char option \<Rightarrow> bool" where
  "word_at p = (case p of None \<Rightarrow> False | Some c \<Rightarrow> is_word c)"

definition next_char :: "string \<Rightarrow> char option" where
  "next_char s = (case s of [] \<Rightarrow> None | c # _ \<Rightarrow> Some c)"

definition word_boundary :: "char option \<Rightarrow> string \<Rightarrow> bool" where
  \<comment> \<open>\<^verbatim>\<open>\b\<close>: exactly one side of the position is a word character\<close>
  "word_boundary prev s = (word_at prev \<noteq> word_at (next_char s))"

fun strip_literal :: "string \<Rightarrow> string \<Rightarrow> string option" where
  \<comment> \<open>match a literal at the start of the text and return what follows it\<close>
  "strip_literal [] s = Some s"
| "strip_literal (k # ks) [] = None"
| "strip_literal (k # ks) (c # cs) = (if k = c then strip_literal ks cs else None)"

definition spaces_then :: "(string \<Rightarrow> bool) \<Rightarrow> string \<Rightarrow> bool" where
  \<comment> \<open>\<^verbatim>\<open>\s+\<close> followed by something that starts with a non-space character\<close>
  "spaces_then k s = (let r = dropWhile is_space s in r \<noteq> s \<and> k r)"

definition words_then :: "(string \<Rightarrow> bool) \<Rightarrow> string \<Rightarrow> bool" where
  \<comment> \<open>\<^verbatim>\<open>\w+\<close> followed by something that starts with a non-word character\<close>
  "words_then k s = (let r = dropWhile is_word s in r \<noteq> s \<and> k r)"

definition literal_then :: "string \<Rightarrow> (string \<Rightarrow> bool) \<Rightarrow> string \<Rightarrow> bool" where
  "literal_then lit k s = (case strip_literal lit s of None \<Rightarrow> False | Some r \<Rightarrow> k r)"

definition double_negative :: "char option \<Rightarrow> string \<Rightarrow> bool" where
  \<comment> \<open>\<^verbatim>\<open>\b(not\s+un|not\s+in|never\s+un|never\s+in)\<close>\<close>
  "double_negative prev s = (word_boundary prev s \<and>
     (literal_then ''not'' (spaces_then (startswith ''un'')) s \<or>
      literal_then ''not'' (spaces_then (startswith ''in'')) s \<or>
      literal_then ''never'' (spaces_then (startswith ''un'')) s \<or>
      literal_then ''never'' (spaces_then (startswith ''in'')) s))"

definition leading_question :: "char option \<Rightarrow> string \<Rightarrow> bool" where
  \<comment> \<open>\<^verbatim>\<open>\b(wouldn't you|don't you think|isn't it true)\<close>\<close>
  "leading_question prev s = (word_boundary prev s \<and>
     (startswith ''wouldn't you'' s \<or> startswith ''don't you think'' s \<or>
      startswith ''isn't it true'' s))"

definition is_separator :: "char \<Rightarrow> bool" where
  "is_separator c = (c = CHR '','' \<or> c = CHR '';'')"

definition complex_sentence :: "char option \<Rightarrow> string \<Rightarrow> bool" where
  \<comment> \<open>\<^verbatim>\<open>[,;]{3,}\<close>\<close>
  "complex_sentence prev s = (case s of
     a # b # c # _ \<Rightarrow> is_separator a \<and> is_separator b \<and> is_separator c
   | _ \<Rightarrow> False)"

definition copula_follows :: "string \<Rightarrow> bool" where
  \<comment> \<open>the lookahead body \<^verbatim>\<open>\s+\w+\s+(is|are|was|were)\<close>\<close>
  "copula_follows s = spaces_then (words_then (spaces_then (\<lambda>r.
     startswith ''is'' r \<or> startswith ''are'' r \<or> startswith ''was'' r \<or> startswith ''were'' r))) s"

definition pronoun_at :: "string \<Rightarrow> string \<Rightarrow> bool" where
  \<comment> \<open>one alternative of the pronoun group, then \<^verbatim>\<open>\b\<close>, then the negative lookahead\<close>
  "pronoun_at p s = literal_then p (\<lambda>r. word_boundary (Some (last p)) r \<and> \<not> copula_follows r) s"

definition vague_pronoun :: "char option \<Rightarrow> string \<Rightarrow> bool" where
  \<comment> \<open>\<^verbatim>\<open>\b(it|they|them|this|that)\b(?!\s+\w+\s+(is|are|was|were))\<close>\<close>
  "vague_pronoun prev s = (word_boundary prev s \<and>
     (pronoun_at ''it'' s \<or> pronoun_at ''they'' s \<or> pronoun_at ''them'' s \<or>
      pronoun_at ''this'' s \<or> pronoun_at ''that'' s))"

section \<open>The lexicon\<close>

datatype level = Knowledge | Comprehension | Application | Analysis | Synthesis | Evaluation

datatype tier = Easy | Medium | Hard

text \<open>
  Python dictionaries keep insertion order, and both \<^verbatim>\<open>max(d, key=...)\<close> and
  \<^verbatim>\<open>d.items()\<close> walk a dictionary in that order: the dictionaries are association lists.
\<close>

definition blooms_keywords :: "(level \<times> string list) list" where
  "blooms_keywords =
   [(Knowledge, [''define'', ''list'', ''identify'', ''recall'', ''name'', ''label'', ''match'',
       ''state'', ''describe'', ''relate'', ''outline'', ''who'', ''what'', ''when'', ''where'']),
    (Comprehension, [''explain'', ''describe'', ''discuss'', ''interpret'', ''summarize'',
       ''classify'', ''paraphrase'', ''illustrate'', ''translate'', ''recognize'', ''express'',
       ''why'', ''how'']),
    (Application, [''apply'', ''solve'', ''use'', ''demonstrate'', ''calculate'', ''illustrate'',
       ''show'', ''complete'', ''examine'', ''modify'', ''relate'', ''change'', ''discover'']),
    (Analysis, [''analyze'', ''compare'', ''contrast'', ''distinguish'', ''examine'',
       ''investigate'', ''categorize'', ''differentiate'', ''separate'', ''infer'', ''arrange'',
       ''relationship'']),
    (Synthesis, [''create'', ''design'', ''compose'', ''construct'', ''formulate'', ''propose'',
       ''develop'', ''integrate'', ''combine'', ''compile'', ''devise'', ''generate'',
       ''hypothesize'']),
    (Evaluation, [''evaluate'', ''judge'', ''criticize'', ''justify'', ''assess'', ''appraise'',
       ''argue'', ''defend'', ''support'', ''value'', ''critique'', ''weigh'', ''recommend''])]"

definition difficulty_keywords :: "(tier \<times> string list) list" where
  "difficulty_keywords =
   [(Easy, [''define'', ''list'', ''identify'', ''recall'', ''name'', ''what is'', ''who is'',
       ''label'', ''match'', ''choose'', ''find'', ''show'', ''spell'', ''tell'']),
    (Medium, [''explain'', ''describe'', ''compare'', ''discuss'', ''why'', ''how'',
       ''summarize'', ''interpret'', ''classify'', ''estimate'', ''organize'']),
    (Hard, [''analyze'', ''evaluate'', ''justify'', ''assess'', ''critique'', ''hypothesize'',
       ''synthesize'', ''design'', ''compose'', ''create'', ''prove'', ''formulate''])]"

definition ambiguity_patterns :: "string list" where
  "ambiguity_patterns =
   [''etc.'', ''and so on'', ''various'', ''several'', ''many'', ''some'', ''sometimes'',
    ''possibly'', ''maybe'', ''approximately'', ''about'', ''often'', ''usually'', ''generally'',
    ''mostly'', ''rarely'']"

definition quality_issues :: "(string \<times> (char option \<Rightarrow> string \<Rightarrow> bool)) list" where
  "quality_issues =
   [(''double negative'', double_negative),
    (''leading question'', leading_question),
    (''complex sentence'', complex_sentence),
    (''vague pronoun'', vague_pronoun)]"

section \<open>The question classifier\<close>

subsection \<open>Dictionaries and \<^verbatim>\<open>max\<close>\<close>

definition keys :: "('k \<times> 'v) list \<Rightarrow> 'k list" where
  "keys d = map fst d"

definition vals :: "('k \<times> 'v) list \<Rightarrow> 'v list" where
  "vals d = map snd d"

fun lookup :: "('k \<times> nat) list \<Rightarrow> 'k \<Rightarrow> nat" where
  \<comment> \<open>\<^verbatim>\<open>d[k]\<close>, read only at keys of \<open>d\<close>\<close>
  "lookup [] k = 0"
| "lookup ((k', v) # d) k = (if k' = k then v else lookup d k)"

definition incr :: "'k \<Rightarrow> ('k \<times> nat) list \<Rightarrow> ('k \<times> nat) list" where
  \<comment> \<open>\<^verbatim>\<open>d[k] += 1\<close>: the entry of the key changes, its position does not\<close>
  "incr k d = map (\<lambda>(k', v). if k' = k then (k', v + 1) else (k', v)) d"

fun max_from :: "('a \<Rightarrow> 'b::linorder) \<Rightarrow> 'a \<Rightarrow> 'a list \<Rightarrow> 'a" where
  \<comment> \<open>the scan of \<^verbatim>\<open>max\<close>: a later item replaces the best one only if its key is greater\<close>
  "max_from key best [] = best"
| "max_from key best (x # xs) = max_from key (if key best < key x then x else best) xs"

fun py_max :: "('a \<Rightarrow> 'b::linorder) \<Rightarrow> 'a list \<Rightarrow> 'a" where
  \<comment> \<open>\<^verbatim>\<open>max(xs, key=key)\<close>; Python raises ValueError on an empty iterable, and the analyzer
      only calls it on the keys and values of its three- and six-entry dictionaries\<close>
  "py_max key (x # xs) = max_from key x xs"

subsection \<open>Cognitive level\<close>

definition blooms_hit :: "string \<Rightarrow> string \<Rightarrow> bool" where
  "blooms_hit question_lower keyword =
     (contains ('' '' @ keyword @ '' '') ('' '' @ question_lower @ '' '') \<or>
      startswith keyword question_lower)"

definition count_hits :: "(string \<Rightarrow> bool) \<Rightarrow> string list \<Rightarrow> nat" where
  \<comment> \<open>the inner loop: one point for every keyword of the list that hits\<close>
  "count_hits hit keywords = fold (\<lambda>keyword n. if hit keyword then n + 1 else n) keywords 0"

definition blooms_scores :: "string \<Rightarrow> (level \<times> nat) list" where
  "blooms_scores question =
     (let question_lower = lower question
      in map (\<lambda>(level, keywords). (level, count_hits (blooms_hit question_lower) keywords))
           blooms_keywords)"

definition classify_blooms_level :: "string \<Rightarrow> level" where
  "classify_blooms_level question =
     (let scores = blooms_scores question;
          max_score = py_max id (vals scores)
      in if max_score > 0 then py_max (lookup scores) (keys scores) else Knowledge)"

subsection \<open>Difficulty\<close>

definition count_words :: "string \<Rightarrow> nat" where
  \<comment> \<open>\<^verbatim>\<open>len(question.split())\<close>\<close>
  "count_words question = length (split question)"

definition difficulty_scores :: "string \<Rightarrow> (tier \<times> nat) list" where
  "difficulty_scores question =
     (let question_lower = lower question;
          scores = map (\<lambda>(level, keywords).
                     (level, count_hits (\<lambda>keyword. contains keyword question_lower) keywords))
                   difficulty_keywords;
          wc = count_words question
      in if wc > 20 then incr Hard scores
         else if wc > 10 then incr Medium scores
         else incr Easy scores)"

definition estimate_difficulty :: "string \<Rightarrow> tier" where
  "estimate_difficulty question =
     (let scores = difficulty_scores question in py_max (lookup scores) (keys scores))"

subsection \<open>Ambiguity, quality issues, cognitive load, quality score\<close>

definition detect_ambiguity :: "string \<Rightarrow> bool \<times> string list" where
  "detect_ambiguity question =
     (let question_lower = lower question;
          found_indicators = filter (\<lambda>indicator. contains indicator question_lower)
                               ambiguity_patterns
      in (length found_indicators > 0, found_indicators))"

definition check_quality_issues :: "string \<Rightarrow> string list" where
  "check_quality_issues question =
     (let question_lower = lower question
      in map fst (filter (\<lambda>(issue_name, pattern). re_search pattern None question_lower)
                    quality_issues))"

text \<open>
  Scores and loads are Python floats; they are modelled as reals. Every quality score is a
  multiple of 5 between 0 and 100, where float arithmetic is exact.
\<close>

definition complexity_keywords :: "string list" where
  "complexity_keywords = [''analyze'', ''evaluate'', ''compare'', ''contrast'', ''synthesize'']"

definition estimate_cognitive_load :: "string \<Rightarrow> real" where
  "estimate_cognitive_load question =
     (let base_load = real (count_words question) / 10;
          complexity_factor =
            length (filter (\<lambda>word. contains word (lower question)) complexity_keywords)
      in min (base_load + real complexity_factor) 10)"

definition calculate_question_score :: "string \<Rightarrow> bool \<Rightarrow> string list \<Rightarrow> real" where
  "calculate_question_score question is_ambiguous issues =
     (let score = 100;
          score = (if is_ambiguous then score - 20 else score);
          score = score - real (length issues) * 10;
          wc = count_words question;
          score = (if wc < 5 then score - 15 else if wc > 40 then score - 10 else score)
      in max 0 score)"

section \<open>The batch analyzer\<close>

record ambiguous_entry =
  amb_question_number :: nat
  amb_question :: string
  indicators :: "string list"

record issue_entry =
  iss_question_number :: nat
  iss_question :: string
  issues :: "string list"

record question_detail =
  number :: nat
  question_text :: string
  blooms_level :: level
  difficulty :: tier
  ambiguous :: bool
  cognitive_load :: real
  word_count :: nat
  quality_score :: real

record analysis =
  total_questions :: nat
  blooms_distribution :: "(level \<times> nat) list"
  difficulty_distribution :: "(tier \<times> nat) list"
  ambiguous_questions :: "ambiguous_entry list"
  flagged_quality_issues :: "issue_entry list"
  question_details :: "question_detail list"

definition initial_results :: "string list \<Rightarrow> analysis" where
  "initial_results questions =
     \<lparr>total_questions = length questions,
      blooms_distribution = map (\<lambda>level. (level, 0)) (keys blooms_keywords),
      difficulty_distribution = [(Easy, 0), (Medium, 0), (Hard, 0)],
      ambiguous_questions = [],
      flagged_quality_issues = [],
      question_details = []\<rparr>"

definition analyze_question :: "nat \<Rightarrow> string \<Rightarrow> analysis \<Rightarrow> analysis" where
  \<comment> \<open>the body of the loop, for question number \<open>i\<close>\<close>
  "analyze_question i question results =
     (let blooms = classify_blooms_level question;
          results = results\<lparr>blooms_distribution := incr blooms (blooms_distribution results)\<rparr>;
          diff = estimate_difficulty question;
          results = results\<lparr>difficulty_distribution :=
                      incr diff (difficulty_distribution results)\<rparr>;
          (is_ambiguous, found) = detect_ambiguity question;
          results = (if is_ambiguous
                     then results\<lparr>ambiguous_questions := ambiguous_questions results @
                            [\<lparr>amb_question_number = i, amb_question = question,
                              indicators = found\<rparr>]\<rparr>
                     else results);
          found_issues = check_quality_issues question;
          results = (if found_issues \<noteq> []
                     then results\<lparr>flagged_quality_issues := flagged_quality_issues results @
                            [\<lparr>iss_question_number = i, iss_question = question,
                              issues = found_issues\<rparr>]\<rparr>
                     else results);
          load = estimate_cognitive_load question
      in results\<lparr>question_details := question_details results @
           [\<lparr>number = i, question_text = question, blooms_level = blooms, difficulty = diff,
             ambiguous = is_ambiguous, cognitive_load = load,
             word_count = count_words question,
             quality_score = calculate_question_score question is_ambiguous found_issues\<rparr>]\<rparr>)"

fun analyze_from :: "nat \<Rightarrow> string list \<Rightarrow> analysis \<Rightarrow> analysis" where
  \<comment> \<open>\<^verbatim>\<open>for i, question in enumerate(questions, i)\<close>\<close>
  "analyze_from i [] results = results"
| "analyze_from i (question # questions) results =
     analyze_from (i + 1) questions (analyze_question i question results)"

definition analyze_questions :: "string list \<Rightarrow> analysis" where
  "analyze_questions questions = analyze_from 1 questions (initial_results questions)"

definition detail_of :: "nat \<Rightarrow> string \<Rightarrow> question_detail" where
  \<comment> \<open>the entry that the loop body appends to \<^verbatim>\<open>question_details\<close> for question number \<open>i\<close>\<close>
  "detail_of i question =
     \<lparr>number = i, question_text = question,
      blooms_level = classify_blooms_level question,
      difficulty = estimate_difficulty question,
      ambiguous = fst (detect_ambiguity question),
      cognitive_load = estimate_cognitive_load question,
      word_count = count_words question,
      quality_score = calculate_question_score question (fst (detect_ambiguity question))
                        (check_quality_issues question)\<rparr>"

section \<open>The suggestion generator\<close>

datatype suggestion_type =
  MissingLevel | LowRepresentation | DifficultyImbalance | Ambiguity | QualityIssue

datatype priority = PriorityHigh | PriorityMedium

datatype category = BloomsTaxonomy | Difficulty | Quality

text \<open>
  A message is kept as its template and the values formatted into it; the rendering of a
  percentage with one decimal is not modelled.
\<close>

datatype message =
    NoQuestionsAtLevel level
  | OnlyPercentAtLevel real level
  | OnlyPercentOfDifficulty real tier
  | AmbiguousTerms nat "string list"
  | HasQualityIssues nat "string list"

datatype subject = OfLevel level | OfTier tier | OfQuestion nat

record suggestion =
  stype :: suggestion_type
  prio :: priority
  categ :: category
  msg :: message
  about :: subject

definition percent :: "nat \<Rightarrow> nat \<Rightarrow> real" where
  \<comment> \<open>\<^verbatim>\<open>(count / total * 100) if total > 0 else 0\<close>\<close>
  "percent cnt n_total = (if n_total > 0 then real cnt / real n_total * 100 else 0)"

definition blooms_suggestion :: "nat \<Rightarrow> level \<times> nat \<Rightarrow> suggestion list" where
  "blooms_suggestion n_total item =
     (case item of (level, cnt) \<Rightarrow>
        let percentage = percent cnt n_total
        in if cnt = 0
           then [\<lparr>stype = MissingLevel, prio = PriorityHigh, categ = BloomsTaxonomy,
                   msg = NoQuestionsAtLevel level, about = OfLevel level\<rparr>]
           else if percentage < 10
           then [\<lparr>stype = LowRepresentation, prio = PriorityMedium, categ = BloomsTaxonomy,
                   msg = OnlyPercentAtLevel percentage level, about = OfLevel level\<rparr>]
           else [])"

definition difficulty_suggestion :: "nat \<Rightarrow> tier \<times> nat \<Rightarrow> suggestion list" where
  "difficulty_suggestion n_total item =
     (case item of (level, cnt) \<Rightarrow>
        let percentage = percent cnt n_total
        in if percentage < 20
           then [\<lparr>stype = DifficultyImbalance, prio = PriorityMedium, categ = Difficulty,
                   msg = OnlyPercentOfDifficulty percentage level, about = OfTier level\<rparr>]
           else [])"

definition ambiguity_suggestion :: "ambiguous_entry \<Rightarrow> suggestion" where
  "ambiguity_suggestion item =
     \<lparr>stype = Ambiguity, prio = PriorityHigh, categ = Quality,
      msg = AmbiguousTerms (amb_question_number item) (indicators item),
      about = OfQuestion (amb_question_number item)\<rparr>"

definition quality_suggestion :: "issue_entry \<Rightarrow> suggestion" where
  "quality_suggestion item =
     \<lparr>stype = QualityIssue, prio = PriorityHigh, categ = Quality,
      msg = HasQualityIssues (iss_question_number item) (issues item),
      about = OfQuestion (iss_question_number item)\<rparr>"

definition generate_suggestions :: "analysis \<Rightarrow> suggestion list" where
  "generate_suggestions a =
     (let n_total = total_questions a
      in concat (map (blooms_suggestion n_total) (blooms_distribution a)) @
         concat (map (difficulty_suggestion n_total) (difficulty_distribution a)) @
         map ambiguity_suggestion (ambiguous_questions a) @
         map quality_suggestion (flagged_quality_issues a))"

section \<open>The scorer\<close>

datatype py_error = ZeroDivisionError | KeyError

datatype grade = Excellent | Good | Fair | NeedsImprovement | NotApplicable

text \<open>
  The dictionary returned for an empty analysis has the keys \<^verbatim>\<open>score\<close>, \<^verbatim>\<open>grade\<close> and
  \<^verbatim>\<open>feedback\<close> only: the three component scores are optional fields.
\<close>

record score_result =
  score :: real
  grade :: grade
  blooms_score :: "real option"
  difficulty_score :: "real option"
  overall_quality_score :: "real option"
  feedback :: string

fun dict_get :: "('k \<times> 'v) list \<Rightarrow> 'k \<Rightarrow> py_error + 'v" where
  \<comment> \<open>\<^verbatim>\<open>d[k]\<close> on a dictionary that may lack the key\<close>
  "dict_get [] k = Inl KeyError"
| "dict_get ((k', v) # d) k = (if k' = k then Inr v else dict_get d k)"

fun min_from :: "('a \<Rightarrow> 'b::linorder) \<Rightarrow> 'a \<Rightarrow> 'a list \<Rightarrow> 'a" where
  "min_from key best [] = best"
| "min_from key best (x # xs) = min_from key (if key x < key best then x else best) xs"

fun py_min :: "('a \<Rightarrow> 'b::linorder) \<Rightarrow> 'a list \<Rightarrow> 'a" where
  \<comment> \<open>\<^verbatim>\<open>min(xs)\<close>, called on a list known to be non-empty\<close>
  "py_min key (x # xs) = min_from key x xs"

definition round_half_even :: "real \<Rightarrow> int" where
  "round_half_even y =
     (let f = \<lfloor>y\<rfloor>; d = y - of_int f
      in if d < 1 / 2 then f else if d > 1 / 2 then f + 1 else if even f then f else f + 1)"

definition round2 :: "real \<Rightarrow> real" where
  \<comment> \<open>\<^verbatim>\<open>round(x, 2)\<close> on the real number, ties to even\<close>
  "round2 x = of_int (round_half_even (x * 100)) / 100"

definition calculate_blooms_score :: "(level \<times> nat) list \<Rightarrow> nat \<Rightarrow> py_error + real" where
  "calculate_blooms_score distribution n_total =
     (let represented_levels = length (filter (\<lambda>cnt. cnt > 0) (vals distribution));
          representation_score = real represented_levels / 6 * 50
      in if distribution \<noteq> [] \<and> n_total = 0 then Inl ZeroDivisionError
         else let percentages = map (\<lambda>cnt. real cnt / real n_total * 100) (vals distribution);
                  balance_score = (if percentages \<noteq> []
                                   then 50 - (py_max id percentages - py_min id percentages)
                                   else 0)
              in Inr (max 0 (representation_score + balance_score)))"

definition ideal_percentages :: "(tier \<times> real) list" where
  "ideal_percentages = [(Easy, 30), (Medium, 40), (Hard, 30)]"

fun difficulty_deviations :: "(tier \<times> nat) list \<Rightarrow> nat \<Rightarrow> (tier \<times> real) list \<Rightarrow> real
                              \<Rightarrow> py_error + real" where
  \<comment> \<open>the loop over the ideal percentages, with the running score\<close>
  "difficulty_deviations distribution n_total [] sc = Inr sc"
| "difficulty_deviations distribution n_total ((level, ideal_pct) # rest) sc =
     (case dict_get distribution level of
        Inl e \<Rightarrow> Inl e
      | Inr cnt \<Rightarrow>
          let actual_pct = percent cnt n_total;
              deviation = \<bar>actual_pct - ideal_pct\<bar>
          in difficulty_deviations distribution n_total rest (sc - deviation * 0.5))"

definition calculate_difficulty_score :: "(tier \<times> nat) list \<Rightarrow> nat \<Rightarrow> py_error + real" where
  "calculate_difficulty_score distribution n_total =
     (case difficulty_deviations distribution n_total ideal_percentages 100 of
        Inl e \<Rightarrow> Inl e
      | Inr sc \<Rightarrow> Inr (max 0 sc))"

definition calculate_quality_score :: "analysis \<Rightarrow> nat \<Rightarrow> real" where
  "calculate_quality_score a n_total =
     (let sc = 100;
          ambiguous_count = length (ambiguous_questions a);
          sc = sc - (if n_total > 0 then real ambiguous_count / real n_total * 100 * 0.5 else 0);
          issues_count = length (flagged_quality_issues a);
          sc = sc - (if n_total > 0 then real issues_count / real n_total * 100 * 0.5 else 0)
      in max 0 sc)"

definition generate_feedback :: "real \<Rightarrow> grade \<Rightarrow> string" where
  "generate_feedback sc g =
     (if sc \<ge> 90
      then ''Excellent question paper with comprehensive cognitive level coverage and good balance.''
      else if sc \<ge> 75
      then ''Good question paper. Minor improvements suggested for better balance.''
      else if sc \<ge> 60
      then ''Fair question paper. Several improvements needed for comprehensive coverage.''
      else ''Significant improvements needed. Review suggestions carefully.'')"

definition calculate_overall_score :: "analysis \<Rightarrow> py_error + score_result" where
  "calculate_overall_score a =
     (let n_total = total_questions a
      in if n_total = 0
         then Inr \<lparr>score = 0, grade = NotApplicable, blooms_score = None,
                   difficulty_score = None, overall_quality_score = None,
                   feedback = ''No questions to analyze''\<rparr>
         else case calculate_blooms_score (blooms_distribution a) n_total of
           Inl e \<Rightarrow> Inl e
         | Inr bs \<Rightarrow>
            (case calculate_difficulty_score (difficulty_distribution a) n_total of
               Inl e \<Rightarrow> Inl e
             | Inr ds \<Rightarrow>
                let qs = calculate_quality_score a n_total;
                    overall_score = bs * 0.4 + ds * 0.3 + qs * 0.3;
                    g = (if overall_score \<ge> 90 then Excellent
                         else if overall_score \<ge> 75 then Good
                         else if overall_score \<ge> 60 then Fair
                         else NeedsImprovement)
                in Inr \<lparr>score = round2 overall_score, grade = g,
                         blooms_score = Some (round2 bs),
                         difficulty_score = Some (round2 ds),
                         overall_quality_score = Some (round2 qs),
                         feedback = generate_feedback overall_score g\<rparr>))"

section \<open>Example questions\<close>

abbreviation scenario_a :: string where
  "scenario_a \<equiv> ''Define the term algorithm.''"

abbreviation scenario_b :: string where
  "scenario_b \<equiv>
     ''Analyze the various causes of inflation and evaluate several policy responses.''"

abbreviation tie_question :: string where
  "tie_question \<equiv> ''Explain recursion.''"

abbreviation worst_question :: string where
  \<comment> \<open>four words, an ambiguity marker, and a match for each of the four detectors\<close>
  "worst_question \<equiv> ''it,;,etc. not un-wouldn't you''"

section \<open>Dictionaries and the scan of \<^verbatim>\<open>max\<close>\<close>

lemma keys_incr: "keys (incr k d) = keys d"
  by (induction d) (auto simp: keys_def incr_def)

lemma incr_absent: "k \<notin> set (keys d) \<Longrightarrow> incr k d = d"
  by (induction d) (auto simp: keys_def incr_def)

lemma incr_Cons: "incr k ((k', v) # d) = (if k' = k then (k', v + 1) else (k', v)) # incr k d"
  by (simp add: incr_def)

lemma sum_incr:
  "distinct (keys d) \<Longrightarrow> k \<in> set (keys d) \<Longrightarrow> sum_list (vals (incr k d)) = sum_list (vals d) + 1"
proof (induction d)
  case Nil
  then show ?case by (simp add: keys_def)
next
  case (Cons e d)
  obtain k' v where e: "e = (k', v)" by (cases e)
  show ?case
  proof (cases "k' = k")
    case True
    with Cons.prems e have "k \<notin> set (keys d)" by (simp add: keys_def)
    then have "incr k d = d" by (rule incr_absent)
    with True e show ?thesis by (simp add: incr_Cons vals_def)
  next
    case False
    with Cons.prems e have "distinct (keys d)" "k \<in> set (keys d)" by (auto simp: keys_def)
    then have "sum_list (vals (incr k d)) = sum_list (vals d) + 1" by (rule Cons.IH)
    with False e show ?thesis by (simp add: incr_Cons vals_def)
  qed
qed

lemma sum_fold_incr:
  "distinct (keys d) \<Longrightarrow> (\<And>q. f q \<in> set (keys d)) \<Longrightarrow>
   sum_list (vals (fold (\<lambda>q. incr (f q)) qs d)) = sum_list (vals d) + length qs"
proof (induction qs arbitrary: d)
  case Nil
  then show ?case by simp
next
  case (Cons q qs)
  have "sum_list (vals (fold (\<lambda>q. incr (f q)) qs (incr (f q) d))) =
        sum_list (vals (incr (f q) d)) + length qs"
    using Cons.prems by (intro Cons.IH) (simp_all add: keys_incr)
  then show ?case using Cons.prems by (simp add: sum_incr)
qed

lemma fold_incr_count:
  "fold (\<lambda>q. incr (f q)) qs d = map (\<lambda>(k, v). (k, v + count (mset (map f qs)) k)) d"
proof (induction qs arbitrary: d)
  case Nil
  then show ?case by simp
next
  case (Cons q qs)
  have "fold (\<lambda>q. incr (f q)) (q # qs) d = fold (\<lambda>q. incr (f q)) qs (incr (f q) d)"
    by simp
  also have "\<dots> = map (\<lambda>(k, v). (k, v + count (mset (map f qs)) k)) (incr (f q) d)"
    by (rule Cons.IH)
  also have "\<dots> = map (\<lambda>(k, v). (k, v + count (mset (map f (q # qs))) k)) d"
    by (auto simp: incr_def)
  finally show ?case .
qed

lemma max_from_first:
  "\<exists>pre post. best # xs = pre @ max_from key best xs # post \<and>
     (\<forall>x\<in>set pre. key x < key (max_from key best xs)) \<and>
     (\<forall>x\<in>set post. key x \<le> key (max_from key best xs))"
proof (induction xs arbitrary: best)
  case Nil
  show ?case by (rule exI[of _ "[]"]) simp
next
  case (Cons x xs)
  define b where "b = (if key best < key x then x else best)"
  define r where "r = max_from key b xs"
  from Cons.IH[of b] obtain pre post where
    dec: "b # xs = pre @ r # post" and
    lt: "\<forall>y\<in>set pre. key y < key r" and
    le: "\<forall>y\<in>set post. key y \<le> key r" unfolding r_def by blast
  have res: "max_from key best (x # xs) = r" by (simp add: r_def b_def)
  have b_le: "key b \<le> key r"
  proof (cases pre)
    case Nil
    with dec show ?thesis by simp
  next
    case (Cons a pre')
    with dec lt show ?thesis by auto
  qed
  show ?case
  proof (cases "key best < key x")
    case True
    then have bx: "b = x" by (simp add: b_def)
    have "best # x # xs = (best # pre) @ r # post" using dec bx by simp
    moreover have "\<forall>y\<in>set (best # pre). key y < key r" using lt b_le True bx by auto
    ultimately show ?thesis unfolding res using le by blast
  next
    case False
    then have bb: "b = best" by (simp add: b_def)
    show ?thesis
    proof (cases pre)
      case Nil
      with dec bb have "best # x # xs = [] @ r # (x # post)" by simp
      moreover have "\<forall>y\<in>set (x # post). key y \<le> key r" using le False Nil dec bb by auto
      moreover have "\<forall>y\<in>set []. key y < key r" by simp
      ultimately show ?thesis unfolding res by blast
    next
      case (Cons a pre')
      with dec bb have eq: "best # x # xs = (best # x # pre') @ r # post" by simp
      have "a = best" using Cons dec bb by simp
      then have "key best < key r" using lt Cons by simp
      then have "\<forall>y\<in>set (best # x # pre'). key y < key r" using lt Cons False by auto
      with eq show ?thesis unfolding res using le by blast
    qed
  qed
qed

lemma py_max_first:
  "xs \<noteq> [] \<Longrightarrow> \<exists>pre post. xs = pre @ py_max key xs # post \<and>
     (\<forall>x\<in>set pre. key x < key (py_max key xs)) \<and>
     (\<forall>x\<in>set post. key x \<le> key (py_max key xs))"
  by (cases xs) (simp_all add: max_from_first)

lemma py_max_upper: "x \<in> set xs \<Longrightarrow> key x \<le> key (py_max key xs)"
proof -
  assume x: "x \<in> set xs"
  then have "xs \<noteq> []" by auto
  from py_max_first[OF this, of key] obtain pre post where
    "xs = pre @ py_max key xs # post"
    "\<forall>x\<in>set pre. key x < key (py_max key xs)"
    "\<forall>x\<in>set post. key x \<le> key (py_max key xs)" by blast
  with x show ?thesis
    by (metis Un_iff order_less_imp_le order_refl set_ConsD set_append)
qed

lemma lookup_in_vals: "k \<in> set (keys d) \<Longrightarrow> lookup d k \<in> set (vals d)"
proof (induction d)
  case Nil
  then show ?case by (simp add: keys_def)
next
  case (Cons e d)
  obtain k' v where e: "e = (k', v)" by (cases e)
  show ?case
  proof (cases "k' = k")
    case True
    with e show ?thesis by (simp add: vals_def)
  next
    case False
    with Cons.prems e have "k \<in> set (keys d)" by (simp add: keys_def)
    then have "lookup d k \<in> set (vals d)" by (rule Cons.IH)
    with False e show ?thesis by (simp add: vals_def)
  qed
qed

lemma find_first:
  "xs = pre @ r # post \<Longrightarrow> P r \<Longrightarrow> (\<forall>x\<in>set pre. \<not> P x) \<Longrightarrow> find P xs = Some r"
  by (induction pre arbitrary: xs) auto

section \<open>The shape of the score dictionaries\<close>

lemma keys_blooms_scores:
  "keys (blooms_scores q) = [Knowledge, Comprehension, Application, Analysis, Synthesis, Evaluation]"
  by (simp add: blooms_scores_def blooms_keywords_def keys_def Let_def)

lemma difficulty_scores_shape:
  "\<exists>a b c. difficulty_scores q = [(Easy, a), (Medium, b), (Hard, c)]"
  by (simp add: difficulty_scores_def difficulty_keywords_def incr_def Let_def)

lemma level_in_keys:
  "l \<in> set [Knowledge, Comprehension, Application, Analysis, Synthesis, Evaluation]"
  by (cases l) simp_all

lemma tier_in_keys: "t \<in> set [Easy, Medium, Hard]"
  by (cases t) simp_all

section \<open>What the loop of the analyzer computes\<close>

lemma analyze_question_fields:
  "total_questions (analyze_question i q r) = total_questions r"
  "blooms_distribution (analyze_question i q r) =
     incr (classify_blooms_level q) (blooms_distribution r)"
  "difficulty_distribution (analyze_question i q r) =
     incr (estimate_difficulty q) (difficulty_distribution r)"
  "question_details (analyze_question i q r) = question_details r @ [detail_of i q]"
  by (simp_all add: analyze_question_def detail_of_def Let_def case_prod_beta)

lemma analyze_from_total: "total_questions (analyze_from i qs r) = total_questions r"
  by (induction qs arbitrary: i r) (simp_all add: analyze_question_fields)

lemma analyze_from_blooms:
  "blooms_distribution (analyze_from i qs r) =
     fold (\<lambda>q. incr (classify_blooms_level q)) qs (blooms_distribution r)"
  by (induction qs arbitrary: i r) (simp_all add: analyze_question_fields)

lemma analyze_from_difficulty:
  "difficulty_distribution (analyze_from i qs r) =
     fold (\<lambda>q. incr (estimate_difficulty q)) qs (difficulty_distribution r)"
  by (induction qs arbitrary: i r) (simp_all add: analyze_question_fields)

lemma analyze_from_details:
  "question_details (analyze_from i qs r) =
     question_details r @ map (\<lambda>(j, q). detail_of j q) (enumerate i qs)"
  by (induction qs arbitrary: i r) (simp_all add: analyze_question_fields)

lemma details_analyze_questions:
  "question_details (analyze_questions qs) = map (\<lambda>(j, q). detail_of j q) (enumerate 1 qs)"
  by (simp add: analyze_questions_def analyze_from_details initial_results_def)

lemma initial_blooms:
  "blooms_distribution (initial_results qs) =
     [(Knowledge, 0), (Comprehension, 0), (Application, 0), (Analysis, 0), (Synthesis, 0),
      (Evaluation, 0)]"
  by (simp add: initial_results_def blooms_keywords_def keys_def)

lemma detail_in_analysis:
  "r \<in> set (question_details (analyze_questions qs)) \<Longrightarrow> \<exists>j q. r = detail_of j q"
  by (auto simp: details_analyze_questions)

lemma detail_of_renumber: "(detail_of i q)\<lparr>number := j\<rparr> = detail_of j q"
  by (simp add: detail_of_def)

lemma mset_permuted:
  assumes "mset p = mset [0..<length qs]"
  shows "mset (map ((!) qs) p) = mset qs"
proof -
  have "mset (map ((!) qs) p) = image_mset ((!) qs) (mset p)" by simp
  also have "\<dots> = image_mset ((!) qs) (mset [0..<length qs])" using assms by simp
  also have "\<dots> = mset (map ((!) qs) [0..<length qs])" by simp
  also have "\<dots> = mset qs" by (simp add: map_nth)
  finally show ?thesis .
qed

lemma blooms_by_count:
  "blooms_distribution (analyze_questions qs) =
     map (\<lambda>(k, v). (k, v + count (image_mset classify_blooms_level (mset qs)) k))
       [(Knowledge, 0), (Comprehension, 0), (Application, 0), (Analysis, 0), (Synthesis, 0),
        (Evaluation, 0)]"
  by (simp only: analyze_questions_def analyze_from_blooms fold_incr_count initial_blooms
        mset_map)

lemma difficulty_by_count:
  "difficulty_distribution (analyze_questions qs) =
     map (\<lambda>(k, v). (k, v + count (image_mset estimate_difficulty (mset qs)) k))
       [(Easy, 0), (Medium, 0), (Hard, 0)]"
proof -
  have "difficulty_distribution (initial_results qs) = [(Easy, 0), (Medium, 0), (Hard, 0)]"
    by (simp add: initial_results_def)
  then show ?thesis
    by (simp only: analyze_questions_def analyze_from_difficulty fold_incr_count mset_map)
qed

lemma issues_at_most_four: "length (check_quality_issues q) \<le> 4"
proof -
  have "length (check_quality_issues q) \<le> length quality_issues"
    by (simp add: check_quality_issues_def Let_def)
  then show ?thesis by (simp add: quality_issues_def)
qed

lemma classify_decomposition:
  "(\<exists>pre post.
      [Knowledge, Comprehension, Application, Analysis, Synthesis, Evaluation] =
        pre @ classify_blooms_level q # post \<and>
      (\<forall>l\<in>set pre. lookup (blooms_scores q) l < lookup (blooms_scores q) (classify_blooms_level q)) \<and>
      (\<forall>l\<in>set post. lookup (blooms_scores q) l \<le> lookup (blooms_scores q) (classify_blooms_level q)))"
proof (cases "py_max id (vals (blooms_scores q)) > 0")
  case True
  then have r: "classify_blooms_level q = py_max (lookup (blooms_scores q)) (keys (blooms_scores q))"
    by (simp add: classify_blooms_level_def Let_def)
  have "keys (blooms_scores q) \<noteq> []" by (simp add: keys_blooms_scores)
  from py_max_first[OF this, of "lookup (blooms_scores q)"] show ?thesis
    unfolding r keys_blooms_scores .
next
  case False
  then have r: "classify_blooms_level q = Knowledge"
    by (simp add: classify_blooms_level_def Let_def)
  have zero: "lookup (blooms_scores q) l = 0" if "l \<in> set (keys (blooms_scores q))" for l
  proof -
    have "lookup (blooms_scores q) l \<in> set (vals (blooms_scores q))"
      using that by (rule lookup_in_vals)
    then have "id (lookup (blooms_scores q) l) \<le> id (py_max id (vals (blooms_scores q)))"
      by (rule py_max_upper)
    with False show ?thesis by simp
  qed
  have "[Knowledge, Comprehension, Application, Analysis, Synthesis, Evaluation] =
        [] @ Knowledge # [Comprehension, Application, Analysis, Synthesis, Evaluation]" by simp
  moreover have "\<forall>l\<in>set [Comprehension, Application, Analysis, Synthesis, Evaluation].
       lookup (blooms_scores q) l \<le> lookup (blooms_scores q) Knowledge"
    using zero by (simp add: keys_blooms_scores)
  moreover have "\<forall>l\<in>set []. lookup (blooms_scores q) l < lookup (blooms_scores q) Knowledge" by simp
  ultimately show ?thesis unfolding r by blast
qed

section \<open>Claims about the classifier\<close>

text \<open>
  C2, as the code has it: \<^verbatim>\<open>max(scores, key=...)\<close> keeps the first maximal key it meets, so
  for every question the difficulty is the first tier, in the order Easy, Medium, Hard, whose
  combined score (keyword hits plus the word-count bonus) is maximal: Easy wins ties against
  Medium and Hard, and Medium wins ties against Hard.
\<close>

theorem estimate_difficulty_first_maximal:
  "estimate_difficulty q =
     (let s = lookup (difficulty_scores q)
      in if s Medium \<le> s Easy \<and> s Hard \<le> s Easy then Easy
         else if s Hard \<le> s Medium then Medium else Hard)"
proof -
  obtain a b c where "difficulty_scores q = [(Easy, a), (Medium, b), (Hard, c)]"
    using difficulty_scores_shape by blast
  then show ?thesis
    by (simp add: estimate_difficulty_def keys_def Let_def)
qed

text \<open>
  The theorem at a tie: \<^verbatim>\<open>Explain recursion.\<close> scores one point for Easy (two words) and one
  for Medium (the keyword \<^verbatim>\<open>explain\<close>), and is Easy.
\<close>

theorem estimate_difficulty_first_maximal_witness:
  "lookup (difficulty_scores tie_question) Medium
     \<le> lookup (difficulty_scores tie_question) Easy \<and>
   estimate_difficulty tie_question = Easy"
proof -
  have s: "difficulty_scores tie_question = [(Easy, 1), (Medium, 1), (Hard, 0)]"
    by code_simp
  from estimate_difficulty_first_maximal[of tie_question] s show ?thesis
    by simp
qed

text \<open>
  The reading in which the last maximal tier wins fails on the same question: Easy and Medium
  tie at the highest score, and the result is not Medium.
\<close>

theorem estimate_difficulty_last_maximal_counterexample:
  "lookup (difficulty_scores tie_question) Easy = 1 \<and>
   lookup (difficulty_scores tie_question) Medium = 1 \<and>
   lookup (difficulty_scores tie_question) Hard = 0 \<and>
   estimate_difficulty tie_question \<noteq> Medium"
  by code_simp

text \<open>
  C4: for every question the cognitive level is the earliest level, in the canonical order,
  whose keyword-hit count is maximal; so among levels that tie for the highest count the
  earliest one is returned. For Scenario B, Analysis and Evaluation score 1 each, the level is
  Analysis, and the question is ambiguous with the markers \<^verbatim>\<open>various\<close> and \<^verbatim>\<open>several\<close>.
\<close>

theorem classify_earliest_maximal:
  "find (\<lambda>l. \<forall>l'\<in>set [Knowledge, Comprehension, Application, Analysis, Synthesis, Evaluation].
            lookup (blooms_scores q) l' \<le> lookup (blooms_scores q) l)
     [Knowledge, Comprehension, Application, Analysis, Synthesis, Evaluation] =
     Some (classify_blooms_level q) \<and>
   blooms_scores scenario_b =
     [(Knowledge, 0), (Comprehension, 0), (Application, 0), (Analysis, 1), (Synthesis, 0),
      (Evaluation, 1)] \<and>
   classify_blooms_level scenario_b = Analysis \<and>
   detect_ambiguity scenario_b = (True, [''various'', ''several''])"
proof -
  let ?s = "lookup (blooms_scores q)"
  let ?r = "classify_blooms_level q"
  let ?levels = "[Knowledge, Comprehension, Application, Analysis, Synthesis, Evaluation]"
  from classify_decomposition[of q] obtain pre post where
    dec: "?levels = pre @ ?r # post" and
    lt: "\<forall>l\<in>set pre. ?s l < ?s ?r" and
    le: "\<forall>l\<in>set post. ?s l \<le> ?s ?r" by blast
  have "set ?levels = set pre \<union> {?r} \<union> set post"
    by (subst dec) auto
  then have best: "\<forall>l'\<in>set ?levels. ?s l' \<le> ?s ?r"
    using lt le by (auto simp del: set_simps intro: less_imp_le)
  have "?r \<in> set ?levels" by (rule level_in_keys)
  then have earlier: "\<forall>l\<in>set pre. \<not> (\<forall>l'\<in>set ?levels. ?s l' \<le> ?s l)"
    using lt by (meson not_le)
  have general: "find (\<lambda>l. \<forall>l'\<in>set ?levels. ?s l' \<le> ?s l) ?levels = Some ?r"
    using dec best earlier by (rule find_first)
  have "blooms_scores scenario_b =
     [(Knowledge, 0), (Comprehension, 0), (Application, 0), (Analysis, 1), (Synthesis, 0),
      (Evaluation, 1)]"
    by code_simp
  moreover have "classify_blooms_level scenario_b = Analysis"
    by code_simp
  moreover have "detect_ambiguity scenario_b = (True, [''various'', ''several''])"
    by code_simp
  ultimately show ?thesis using general by blast
qed

text \<open>The theorem at the tie of Scenario B: Analysis is the earliest level with a maximal count.\<close>

theorem classify_earliest_maximal_witness:
  "find (\<lambda>l. \<forall>l'\<in>set [Knowledge, Comprehension, Application, Analysis, Synthesis, Evaluation].
            lookup (blooms_scores scenario_b) l' \<le> lookup (blooms_scores scenario_b) l)
     [Knowledge, Comprehension, Application, Analysis, Synthesis, Evaluation] = Some Analysis \<and>
   lookup (blooms_scores scenario_b) Evaluation = lookup (blooms_scores scenario_b) Analysis"
  using classify_earliest_maximal[of scenario_b] by simp

section \<open>Claims about single questions\<close>

text \<open>
  C3, as the code has it: \<^verbatim>\<open>Define the term algorithm.\<close> has four words, so the
  short-question penalty applies. Its record has cognitive level Knowledge, difficulty Easy, no
  ambiguity, no quality issue, and quality score 85.
\<close>

theorem scenario_a_record:
  "question_details (analyze_questions [scenario_a]) =
     [\<lparr>number = 1, question_text = scenario_a, blooms_level = Knowledge, difficulty = Easy,
       ambiguous = False, cognitive_load = 4 / 10, word_count = 4, quality_score = 85\<rparr>] \<and>
   check_quality_issues scenario_a = []"
  by code_simp

text \<open>The quality score of that record is not 100.\<close>

theorem scenario_a_score_counterexample:
  "map quality_score (question_details (analyze_questions [scenario_a])) \<noteq> [100]"
  by code_simp

text \<open>
  C8: the empty question has word count 0, cognitive level Knowledge, difficulty Easy, is not
  ambiguous, has cognitive load 0, and its quality score is 85: no quality issue is found and
  only the short-question penalty applies.
\<close>

theorem empty_question_record:
  "question_details (analyze_questions [[]]) =
     [\<lparr>number = 1, question_text = [], blooms_level = Knowledge, difficulty = Easy,
       ambiguous = False, cognitive_load = 0, word_count = 0, quality_score = 85\<rparr>] \<and>
   detect_ambiguity [] = (False, []) \<and> check_quality_issues [] = []"
  by code_simp

text \<open>
  C9: in every analysis, the quality score of every question record lies between 0 and 100 and
  its cognitive load between 0 and 10.
\<close>

theorem score_and_load_bounds:
  "r \<in> set (question_details (analyze_questions qs)) \<Longrightarrow>
     0 \<le> quality_score r \<and> quality_score r \<le> 100 \<and>
     0 \<le> cognitive_load r \<and> cognitive_load r \<le> 10"
proof -
  assume "r \<in> set (question_details (analyze_questions qs))"
  then obtain j q where r: "r = detail_of j q" using detail_in_analysis by blast
  have "0 \<le> quality_score r" "quality_score r \<le> 100"
    by (simp_all add: r detail_of_def calculate_question_score_def Let_def)
  moreover have "0 \<le> cognitive_load r" "cognitive_load r \<le> 10"
    by (simp_all add: r detail_of_def estimate_cognitive_load_def Let_def)
  ultimately show ?thesis by simp
qed

text \<open>The theorem at the second record of a two-question paper.\<close>

theorem score_and_load_bounds_witness:
  "detail_of 2 scenario_b \<in> set (question_details (analyze_questions [scenario_a, scenario_b])) \<and>
   0 \<le> quality_score (detail_of 2 scenario_b) \<and>
   quality_score (detail_of 2 scenario_b) \<le> 100 \<and>
   0 \<le> cognitive_load (detail_of 2 scenario_b) \<and>
   cognitive_load (detail_of 2 scenario_b) \<le> 10"
proof -
  have h: "detail_of 2 scenario_b \<in>
           set (question_details (analyze_questions [scenario_a, scenario_b]))"
    by code_simp
  from score_and_load_bounds[OF h] h show ?thesis by simp
qed

text \<open>
  C10: in every analysis, the quality score of every question record is at least 25. At most
  20 is deducted for ambiguity, at most 40 for the four detectors (each is reported at most
  once, 10 each), and at most 15 for length, so the score is the plain difference and the floor
  at zero is never reached.
\<close>

theorem score_at_least_25:
  "r \<in> set (question_details (analyze_questions qs)) \<Longrightarrow>
     25 \<le> quality_score r \<and>
     quality_score r =
       100 - (if ambiguous r then 20 else 0)
           - 10 * real (length (check_quality_issues (question_text r)))
           - (if word_count r < 5 then 15 else if word_count r > 40 then 10 else 0)"
proof -
  assume "r \<in> set (question_details (analyze_questions qs))"
  then obtain j q where r: "r = detail_of j q" using detail_in_analysis by blast
  have "real (length (check_quality_issues q)) \<le> 4"
    using issues_at_most_four[of q] by simp
  then show ?thesis
    by (simp add: r detail_of_def calculate_question_score_def Let_def)
qed

text \<open>
  The bound is reached: a four-word question with an ambiguity marker and a match for each of
  the four detectors scores exactly 25.
\<close>

theorem score_at_least_25_witness:
  "detail_of 1 worst_question \<in> set (question_details (analyze_questions [worst_question])) \<and>
   25 \<le> quality_score (detail_of 1 worst_question) \<and>
   quality_score (detail_of 1 worst_question) = 25"
proof -
  have h: "detail_of 1 worst_question \<in>
           set (question_details (analyze_questions [worst_question]))"
    by code_simp
  have v: "quality_score (detail_of 1 worst_question) = 25"
    by code_simp
  from score_at_least_25[OF h] h v show ?thesis by simp
qed

section \<open>Claims about the batch analyzer\<close>

text \<open>
  C5: for every input sequence, the counts of the cognitive-level distribution and the counts
  of the difficulty distribution both add up to \<^verbatim>\<open>total_questions\<close>, which is the number of
  question records and the length of the input.
\<close>

theorem distribution_sums:
  "sum_list (vals (blooms_distribution (analyze_questions qs))) =
     total_questions (analyze_questions qs) \<and>
   sum_list (vals (difficulty_distribution (analyze_questions qs))) =
     total_questions (analyze_questions qs) \<and>
   total_questions (analyze_questions qs) = length (question_details (analyze_questions qs)) \<and>
   total_questions (analyze_questions qs) = length qs"
proof -
  let ?r = "initial_results qs"
  have t: "total_questions (analyze_questions qs) = length qs"
    by (simp add: analyze_questions_def analyze_from_total initial_results_def)
  have "sum_list (vals (fold (\<lambda>q. incr (classify_blooms_level q)) qs (blooms_distribution ?r))) =
        sum_list (vals (blooms_distribution ?r)) + length qs"
    by (rule sum_fold_incr) (simp_all add: initial_blooms keys_def level_in_keys[simplified])
  then have b: "sum_list (vals (blooms_distribution (analyze_questions qs))) = length qs"
    by (simp add: analyze_questions_def analyze_from_blooms initial_blooms vals_def)
  have "sum_list (vals (fold (\<lambda>q. incr (estimate_difficulty q)) qs
                          (difficulty_distribution ?r))) =
        sum_list (vals (difficulty_distribution ?r)) + length qs"
    by (rule sum_fold_incr) (simp_all add: initial_results_def keys_def tier_in_keys[simplified])
  then have d: "sum_list (vals (difficulty_distribution (analyze_questions qs))) = length qs"
    by (simp add: analyze_questions_def analyze_from_difficulty initial_results_def vals_def)
  have l: "length (question_details (analyze_questions qs)) = length qs"
    by (simp add: details_analyze_questions)
  from t b d l show ?thesis by simp
qed

text \<open>
  C6: a permutation of the input is given by the list \<open>p\<close> of the old positions, a
  rearrangement of \<open>0, \<dots>, n - 1\<close>. The records of the permuted input are the records of
  the original input in the order \<open>p\<close>, renumbered \<open>1, \<dots>, n\<close> and otherwise unchanged, and
  both distributions are the same.
\<close>

theorem permutation_invariance:
  assumes "mset p = mset [0..<length qs]"
  shows "question_details (analyze_questions (map ((!) qs) p)) =
           map (\<lambda>(j, i). (question_details (analyze_questions qs) ! i)\<lparr>number := j\<rparr>)
             (enumerate 1 p) \<and>
         blooms_distribution (analyze_questions (map ((!) qs) p)) =
           blooms_distribution (analyze_questions qs) \<and>
         difficulty_distribution (analyze_questions (map ((!) qs) p)) =
           difficulty_distribution (analyze_questions qs)"
proof -
  have len: "length p = length qs"
    using mset_eq_length[OF assms] by simp
  have inb: "i < length qs" if "i \<in> set p" for i
    using mset_eq_setD[OF assms] that by auto
  have "question_details (analyze_questions (map ((!) qs) p)) =
          map (\<lambda>(j, i). (question_details (analyze_questions qs) ! i)\<lparr>number := j\<rparr>)
            (enumerate 1 p)"
  proof (rule nth_equalityI)
    show "length (question_details (analyze_questions (map ((!) qs) p))) =
          length (map (\<lambda>(j, i). (question_details (analyze_questions qs) ! i)\<lparr>number := j\<rparr>)
            (enumerate 1 p))"
      by (simp add: details_analyze_questions)
  next
    fix k
    assume "k < length (question_details (analyze_questions (map ((!) qs) p)))"
    then have k: "k < length p" by (simp add: details_analyze_questions)
    then have pk: "p ! k < length qs" using inb by simp
    have "question_details (analyze_questions (map ((!) qs) p)) ! k =
          detail_of (1 + k) (qs ! (p ! k))"
      using k by (simp add: details_analyze_questions nth_enumerate_eq)
    moreover have "question_details (analyze_questions qs) ! (p ! k) =
          detail_of (1 + p ! k) (qs ! (p ! k))"
      using pk by (simp add: details_analyze_questions nth_enumerate_eq)
    ultimately show "question_details (analyze_questions (map ((!) qs) p)) ! k =
          map (\<lambda>(j, i). (question_details (analyze_questions qs) ! i)\<lparr>number := j\<rparr>)
            (enumerate 1 p) ! k"
      using k by (simp add: nth_enumerate_eq detail_of_renumber)
  qed
  moreover have "blooms_distribution (analyze_questions (map ((!) qs) p)) =
           blooms_distribution (analyze_questions qs)"
    by (simp only: blooms_by_count mset_permuted[OF assms])
  moreover have "difficulty_distribution (analyze_questions (map ((!) qs) p)) =
           difficulty_distribution (analyze_questions qs)"
    by (simp only: difficulty_by_count mset_permuted[OF assms])
  ultimately show ?thesis by simp
qed

text \<open>The theorem at the swap of a two-question paper.\<close>

theorem permutation_invariance_witness:
  "mset [1, 0] = mset [0..<length [scenario_a, tie_question]] \<and>
   question_details (analyze_questions [tie_question, scenario_a]) =
     [(question_details (analyze_questions [scenario_a, tie_question]) ! 1)\<lparr>number := 1\<rparr>,
      (question_details (analyze_questions [scenario_a, tie_question]) ! 0)\<lparr>number := 2\<rparr>] \<and>
   blooms_distribution (analyze_questions [tie_question, scenario_a]) =
     blooms_distribution (analyze_questions [scenario_a, tie_question]) \<and>
   difficulty_distribution (analyze_questions [tie_question, scenario_a]) =
     difficulty_distribution (analyze_questions [scenario_a, tie_question])"
proof -
  have h: "mset [1, 0] = mset [0..<length [scenario_a, tie_question]]"
    by (simp add: upt_rec)
  from permutation_invariance[OF h] h show ?thesis
    by (simp add: enumerate_simps)
qed

section \<open>Claims about the empty analysis\<close>

text \<open>
  C1, as the code has it: for the analysis of the empty input, where \<^verbatim>\<open>total_questions\<close> is
  0, the suggestion generator returns nine suggestions: a high-priority missing-level
  suggestion for each of the six cognitive levels, in canonical order, then a medium-priority
  difficulty-imbalance suggestion, at 0 percent, for each of Easy, Medium and Hard.
\<close>

theorem empty_input_suggestions:
  "total_questions (analyze_questions []) = 0 \<and>
   generate_suggestions (analyze_questions []) =
     map (\<lambda>l. \<lparr>stype = MissingLevel, prio = PriorityHigh, categ = BloomsTaxonomy,
                msg = NoQuestionsAtLevel l, about = OfLevel l\<rparr>)
       [Knowledge, Comprehension, Application, Analysis, Synthesis, Evaluation] @
     map (\<lambda>t. \<lparr>stype = DifficultyImbalance, prio = PriorityMedium, categ = Difficulty,
                msg = OnlyPercentOfDifficulty 0 t, about = OfTier t\<rparr>)
       [Easy, Medium, Hard]"
  by code_simp

text \<open>The suggestions for the empty input are not the empty sequence.\<close>

theorem empty_input_suggestions_counterexample:
  "total_questions (analyze_questions []) = 0 \<and>
   generate_suggestions (analyze_questions []) \<noteq> []"
  by code_simp

text \<open>
  C7: when \<^verbatim>\<open>total_questions\<close> is 0 the scorer returns score 0, the grade for ``not
  applicable'', and the feedback \<^verbatim>\<open>No questions to analyze\<close>; the result carries none of
  the three component scores.
\<close>

theorem empty_analysis_score:
  "total_questions a = 0 \<Longrightarrow>
     calculate_overall_score a =
       Inr \<lparr>score = 0, grade = NotApplicable, blooms_score = None, difficulty_score = None,
            overall_quality_score = None, feedback = ''No questions to analyze''\<rparr>"
  by (simp add: calculate_overall_score_def)

text \<open>
  The theorem at the analysis of the empty input, where the cognitive-balance component, had
  it been computed, would have divided by zero.
\<close>

theorem empty_analysis_score_witness:
  "total_questions (analyze_questions []) = 0 \<and>
   calculate_overall_score (analyze_questions []) =
     Inr \<lparr>score = 0, grade = NotApplicable, blooms_score = None, difficulty_score = None,
          overall_quality_score = None, feedback = ''No questions to analyze''\<rparr> \<and>
   calculate_blooms_score (blooms_distribution (analyze_questions [])) 0 =
     Inl ZeroDivisionError"
proof -
  have h: "total_questions (analyze_questions []) = 0"
    by code_simp
  have z: "calculate_blooms_score (blooms_distribution (analyze_questions [])) 0 =
           Inl ZeroDivisionError"
    by code_simp
  from empty_analysis_score[OF h] h z show ?thesis by simp
qed

end
